theory Spec2Isabelle
  imports Main "HOL-Library.Word"
begin

section \<open>Data model\<close>

text \<open>
  The firmware keeps its screen state in file-level static variables of
  \<^verbatim>\<open>standby_screen.cpp\<close>, \<^verbatim>\<open>loading_screen.cpp\<close>, \<^verbatim>\<open>launcher.cpp\<close> and
  \<^verbatim>\<open>main.cpp\<close>. The model gathers them in one record, each field under the name of its
  variable, and passes the record through every function.

  A pointer to an LVGL object is an \<open>option\<close>: \<open>None\<close> is \<^verbatim>\<open>nullptr\<close>, \<open>Some n\<close> is
  the object with identity \<open>n\<close>. LVGL hands out fresh identities from \<open>lv_next\<close>.
\<close>

type_synonym lv_obj = nat

datatype AppType = APP_SMART_RESPONSE | APP_DIFY_XIAOZHI

datatype lv_event_code = LV_EVENT_PRESSED | LV_EVENT_CLICKED | LV_EVENT_RELEASED

text \<open>
  \<^verbatim>\<open>AppLaunchCallback\<close> is a function pointer. The only function whose address the
  firmware stores in it is \<^verbatim>\<open>app_launch_callback\<close> of \<^verbatim>\<open>main.cpp\<close>.
\<close>

datatype AppLaunchCallback = Main_app_launch_callback

datatype ButtonCallback = Pwr_button_callback | Boot_button_callback

text \<open>
  What the firmware does to its surroundings is recorded in order: a screen object
  created by \<^verbatim>\<open>lv_obj_create(nullptr)\<close>, a screen put on the render surface by
  \<^verbatim>\<open>lv_screen_load\<close>, an application asked to show itself, a Wi-Fi connection
  attempt, a value saved to the persisted configuration, the access point started.
\<close>

datatype event =
    Created lv_obj
  | Loaded "lv_obj option"
  | AppShown AppType
  | WifiConnect string string
  | ConfigSave string string
  | SoftAP

record state =
  \<comment> \<open>LVGL and the timer\<close>
  lv_display :: bool
  lv_next :: nat
  lv_scr_act :: "lv_obj option"
  timer_us :: nat
  events :: "event list"
  \<comment> \<open>\<^verbatim>\<open>standby_screen.cpp\<close>\<close>
  standby_screen :: "lv_obj option"
  standby_visible :: bool
  last_update :: int
  \<comment> \<open>\<^verbatim>\<open>loading_screen.cpp\<close>\<close>
  loading_screen :: "lv_obj option"
  logo_label :: "lv_obj option"
  message_label :: "lv_obj option"
  spinner :: "lv_obj option"
  progress_bar :: "lv_obj option"
  loading_visible :: bool
  spinner_angle :: "32 word"
  last_spinner_update :: int
  message_text :: string
  bar_value :: int
  \<comment> \<open>\<^verbatim>\<open>launcher.cpp\<close>\<close>
  launcher_screen :: "lv_obj option"
  app_smart_response :: "lv_obj option"
  app_dify :: "lv_obj option"
  app_launch_callback :: "AppLaunchCallback option"
  launcher_visible :: bool
  \<comment> \<open>\<^verbatim>\<open>main.cpp\<close> and the collaborators it drives\<close>
  system_initialized :: bool
  pwr_callback :: "ButtonCallback option"
  boot_callback :: "ButtonCallback option"
  config :: "(string \<times> string) list"

text \<open>
  \<open>lv_display\<close> is \<^verbatim>\<open>lv_display_get_default() != nullptr\<close>; \<open>lv_scr_act\<close> is the screen
  on the render surface; \<open>timer_us\<close> is \<^verbatim>\<open>esp_timer_get_time()\<close>, microseconds since
  boot; \<open>message_text\<close> and \<open>bar_value\<close> are the text of \<^verbatim>\<open>message_label\<close> and the
  value of \<^verbatim>\<open>progress_bar\<close> inside LVGL; \<open>config\<close> is the persisted key/value store.

  \<^verbatim>\<open>bsp_display_lock(0)\<close> waits without limit and every path of every function below
  releases the lock it took, so the lock never changes what a sequential run computes;
  it is left out. So are the \<^verbatim>\<open>ESP_LOG\<close> lines, and the text, fonts, colours and
  positions of the widgets.
\<close>

definition esp_timer_ms :: "state \<Rightarrow> int" where
  "esp_timer_ms s = int (timer_us s div 1000)"

definition lv_screen_load :: "lv_obj option \<Rightarrow> state \<Rightarrow> state" where
  "lv_screen_load scr s = s\<lparr>lv_scr_act := scr, events := events s @ [Loaded scr]\<rparr>"

section \<open>The Standby screen\<close>

text \<open>
  \<^verbatim>\<open>standby_screen_init\<close> creates the screen object and six widgets on it (three
  labels, the battery label, two icons) and does not test any of the seven results: the
  source relies on LVGL returning an object, and so does the model.
\<close>

definition standby_screen_init :: "state \<Rightarrow> state" where
  "standby_screen_init s =
     (if standby_screen s \<noteq> None then s
      else s\<lparr>standby_screen := Some (lv_next s),
             lv_next := lv_next s + 7,
             events := events s @ [Created (lv_next s)],
             standby_visible := False\<rparr>)"

text \<open>
  \<^verbatim>\<open>standby_screen_update\<close> refreshes the labels at most once a second. The texts come
  from the clock, the battery and the network managers; the model keeps the guard, the
  throttle and the timestamp.
\<close>

definition standby_screen_update :: "state \<Rightarrow> state" where
  "standby_screen_update s =
     (if \<not> standby_visible s \<or> standby_screen s = None then s
      else let current_time = esp_timer_ms s in
        if current_time - last_update s < 1000 then s
        else s\<lparr>last_update := current_time\<rparr>)"

definition standby_screen_show :: "state \<Rightarrow> state" where
  "standby_screen_show s =
     (let s1 = (if standby_screen s = None then standby_screen_init s else s);
          s2 = lv_screen_load (standby_screen s1) s1;
          s3 = s2\<lparr>standby_visible := True, last_update := 0\<rparr>
      in standby_screen_update s3)"

definition standby_screen_hide :: "state \<Rightarrow> state" where
  "standby_screen_hide s = s\<lparr>standby_visible := False\<rparr>"

definition standby_screen_is_visible :: "state \<Rightarrow> bool" where
  "standby_screen_is_visible s = standby_visible s"

section \<open>The Launcher\<close>

text \<open>
  \<^verbatim>\<open>launcher_init\<close> creates the screen, the title and two application buttons;
  \<^verbatim>\<open>create_app_button\<close> creates the button, its label and its icon. None of the
  eight results is tested.
\<close>

definition launcher_init :: "state \<Rightarrow> state" where
  "launcher_init s =
     (if launcher_screen s \<noteq> None then s
      else s\<lparr>launcher_screen := Some (lv_next s),
             app_smart_response := Some (lv_next s + 2),
             app_dify := Some (lv_next s + 5),
             lv_next := lv_next s + 8,
             events := events s @ [Created (lv_next s)],
             launcher_visible := False\<rparr>)"

definition launcher_show :: "state \<Rightarrow> state" where
  "launcher_show s =
     (let s1 = (if launcher_screen s = None then launcher_init s else s);
          s2 = lv_screen_load (launcher_screen s1) s1
      in s2\<lparr>launcher_visible := True\<rparr>)"

definition launcher_hide :: "state \<Rightarrow> state" where
  "launcher_hide s = standby_screen_show (s\<lparr>launcher_visible := False\<rparr>)"

definition launcher_set_app_launch_callback :: "AppLaunchCallback option \<Rightarrow> state \<Rightarrow> state" where
  "launcher_set_app_launch_callback callback s = s\<lparr>app_launch_callback := callback\<rparr>"

definition launcher_is_visible :: "state \<Rightarrow> bool" where
  "launcher_is_visible s = launcher_visible s"

text \<open>The touch handler installed on the Standby screen by \<^verbatim>\<open>standby_screen_init\<close>.\<close>

definition standby_touch_event_cb :: "lv_event_code \<Rightarrow> state \<Rightarrow> state" where
  "standby_touch_event_cb code s =
     (if code = LV_EVENT_CLICKED \<or> code = LV_EVENT_PRESSED
      then launcher_show (standby_screen_hide s)
      else s)"

section \<open>The Loading screen\<close>

definition clamp_percent :: "int \<Rightarrow> int" where
  "clamp_percent v = (if v < 0 then 0 else if v > 100 then 100 else v)"

text \<open>The UTF-8 bytes of the status line the Loading screen starts with.\<close>

definition MSG_INITIALIZING :: string where
  "MSG_INITIALIZING =
     [CHR 0xE5, CHR 0x88, CHR 0x9D, CHR 0xE5, CHR 0xA7, CHR 0x8B, CHR 0xE5, CHR 0x8C, CHR 0x96,
      CHR 0xE4, CHR 0xB8, CHR 0xAD] @ ''...''"

text \<open>
  \<^verbatim>\<open>loading_screen_init\<close> tests the result of each of its six creations (screen, logo
  label, designer label, spinner, message label, progress bar) and returns at the first
  \<^verbatim>\<open>nullptr\<close>. Whether LVGL can create them is an input: \<open>n\<close> is the number of
  creations that succeed before the first failure, and \<open>6 \<le> n\<close> means all of them do.
  A failed creation stores its \<^verbatim>\<open>nullptr\<close> in the static pointer; the designer label
  is a local variable.
\<close>

definition loading_screen_init :: "nat \<Rightarrow> state \<Rightarrow> state" where
  "loading_screen_init n s =
     (if loading_screen s \<noteq> None then s
      else if \<not> lv_display s then s
      else if n < 1 then s
      else let s1 = s\<lparr>loading_screen := Some (lv_next s), lv_next := lv_next s + 1,
                       events := events s @ [Created (lv_next s)]\<rparr> in
      if n < 2 then s1\<lparr>logo_label := None\<rparr>
      else let s2 = s1\<lparr>logo_label := Some (lv_next s1), lv_next := lv_next s1 + 1\<rparr> in
      if n < 3 then s2
      else let s3 = s2\<lparr>lv_next := lv_next s2 + 1\<rparr> in
      if n < 4 then s3\<lparr>spinner := None\<rparr>
      else let s4 = s3\<lparr>spinner := Some (lv_next s3), lv_next := lv_next s3 + 1\<rparr> in
      if n < 5 then s4\<lparr>message_label := None\<rparr>
      else let s5 = s4\<lparr>message_label := Some (lv_next s4), lv_next := lv_next s4 + 1,
                        message_text := MSG_INITIALIZING\<rparr> in
      if n < 6 then s5\<lparr>progress_bar := None\<rparr>
      else s5\<lparr>progress_bar := Some (lv_next s5), lv_next := lv_next s5 + 1,
              bar_value := 0, loading_visible := False\<rparr>)"

definition loading_screen_set_message :: "string \<Rightarrow> state \<Rightarrow> state" where
  "loading_screen_set_message message s =
     (if message_label s \<noteq> None then s\<lparr>message_text := message\<rparr> else s)"

definition loading_screen_set_progress :: "int \<Rightarrow> state \<Rightarrow> state" where
  "loading_screen_set_progress percent s =
     (if progress_bar s \<noteq> None then s\<lparr>bar_value := clamp_percent percent\<rparr> else s)"

definition loading_screen_show :: "nat \<Rightarrow> state \<Rightarrow> state" where
  "loading_screen_show n s =
     (let s1 = (if loading_screen s = None then loading_screen_init n s else s) in
      if loading_screen s1 = None then s1
      else if \<not> lv_display s1 then s1
      else let s2 = lv_screen_load (loading_screen s1) s1;
               s3 = s2\<lparr>loading_visible := True, last_spinner_update := esp_timer_ms s2\<rparr>;
               s4 = loading_screen_set_message MSG_INITIALIZING s3
           in loading_screen_set_progress 0 s4)"

definition loading_screen_hide :: "state \<Rightarrow> state" where
  "loading_screen_hide s = s\<lparr>loading_visible := False\<rparr>"

definition loading_screen_update :: "state \<Rightarrow> state" where
  "loading_screen_update s =
     (if \<not> loading_visible s \<or> loading_screen s = None then s
      else let current_time = esp_timer_ms s in
        if current_time - last_spinner_update s > 16
        then let angle = spinner_angle s + 5 in
          s\<lparr>last_spinner_update := current_time,
            spinner_angle := (if angle \<ge> 360 then 0 else angle)\<rparr>
        else s)"

definition loading_screen_is_visible :: "state \<Rightarrow> bool" where
  "loading_screen_is_visible s = loading_visible s"

section \<open>Buttons and application launch\<close>

text \<open>
  Modelled from the spec: the applications' \<^verbatim>\<open>show\<close> functions
  (\<^verbatim>\<open>smart_response_app_show\<close>, declared in \<^verbatim>\<open>apps/smart_response_app.h\<close>, and
  \<^verbatim>\<open>dify_app_show\<close>) are not among the sources. The spec says that dispatch shows
  the target application; the model records that the application was asked to show
  itself and nothing more.
\<close>

definition smart_response_app_show :: "state \<Rightarrow> state" where
  "smart_response_app_show s = s\<lparr>events := events s @ [AppShown APP_SMART_RESPONSE]\<rparr>"

definition dify_app_show :: "state \<Rightarrow> state" where
  "dify_app_show s = s\<lparr>events := events s @ [AppShown APP_DIFY_XIAOZHI]\<rparr>"

definition pwr_button_callback :: "state \<Rightarrow> state" where
  "pwr_button_callback s =
     (if standby_screen_is_visible s then launcher_show s
      else if launcher_is_visible s then launcher_hide s
      else s)"

definition boot_button_callback :: "state \<Rightarrow> state" where
  "boot_button_callback s =
     (if launcher_is_visible s then launcher_hide s
      else if standby_screen_is_visible s then launcher_show s
      else s)"

text \<open>\<^verbatim>\<open>app_launch_callback\<close> of \<^verbatim>\<open>main.cpp\<close>.\<close>

definition main_app_launch_callback :: "AppType \<Rightarrow> state \<Rightarrow> state" where
  "main_app_launch_callback app_type s =
     (case app_type of
        APP_SMART_RESPONSE \<Rightarrow> smart_response_app_show s
      | APP_DIFY_XIAOZHI \<Rightarrow> dify_app_show s)"

definition call_AppLaunchCallback :: "AppLaunchCallback \<Rightarrow> AppType \<Rightarrow> state \<Rightarrow> state" where
  "call_AppLaunchCallback f app_type s =
     (case f of Main_app_launch_callback \<Rightarrow> main_app_launch_callback app_type s)"

text \<open>
  The click handler of an application button: \<open>code\<close> is the event's code and
  \<open>app_type\<close> the user data that \<^verbatim>\<open>create_app_button\<close> stored in the button.
\<close>

definition app_btn_event_cb :: "lv_event_code \<Rightarrow> AppType \<Rightarrow> state \<Rightarrow> state" where
  "app_btn_event_cb code app_type s =
     (if code = LV_EVENT_CLICKED
      then launcher_hide
             (case app_launch_callback s of
                Some f \<Rightarrow> call_AppLaunchCallback f app_type s
              | None \<Rightarrow> s)
      else s)"

section \<open>The boot task\<close>

text \<open>The UTF-8 bytes of the status lines that \<^verbatim>\<open>main_task\<close> reports.\<close>

definition MSG_INIT_HARDWARE :: string where
  "MSG_INIT_HARDWARE =
     [CHR 0xE5, CHR 0x88, CHR 0x9D, CHR 0xE5, CHR 0xA7, CHR 0x8B, CHR 0xE5, CHR 0x8C, CHR 0x96, CHR 0xE7, CHR 0xA1, CHR 0xAC, CHR 0xE4, CHR 0xBB, CHR 0xB6] @ ''...''"

definition MSG_INIT_AUDIO :: string where
  "MSG_INIT_AUDIO =
     [CHR 0xE5, CHR 0x88, CHR 0x9D, CHR 0xE5, CHR 0xA7, CHR 0x8B, CHR 0xE5, CHR 0x8C, CHR 0x96, CHR 0xE9, CHR 0x9F, CHR 0xB3, CHR 0xE9, CHR 0xA2, CHR 0x91] @ ''...''"

definition MSG_LOAD_CONFIG :: string where
  "MSG_LOAD_CONFIG =
     [CHR 0xE5, CHR 0x8A, CHR 0xA0, CHR 0xE8, CHR 0xBD, CHR 0xBD, CHR 0xE9, CHR 0x85, CHR 0x8D, CHR 0xE7, CHR 0xBD, CHR 0xAE] @ ''...''"

definition MSG_CONNECTING :: string where
  "MSG_CONNECTING =
     [CHR 0xE8, CHR 0xBF, CHR 0x9E, CHR 0xE6, CHR 0x8E, CHR 0xA5, CHR 0xE4, CHR 0xB8, CHR 0xAD] @ ''...''"

definition MSG_READY :: string where
  "MSG_READY =
     [CHR 0xE5, CHR 0xB0, CHR 0xB1, CHR 0xE7, CHR 0xBB, CHR 0xAA, CHR 0xEF, CHR 0xBC, CHR 0x81] @ ''''"

definition MSG_INIT_SD :: string where
  "MSG_INIT_SD =
     [CHR 0xE5, CHR 0x88, CHR 0x9D, CHR 0xE5, CHR 0xA7, CHR 0x8B, CHR 0xE5, CHR 0x8C, CHR 0x96] @ ''SD'' @
     [CHR 0xE5, CHR 0x8D, CHR 0xA1] @ ''...''"

definition MSG_INIT_WIFI :: string where
  "MSG_INIT_WIFI =
     [CHR 0xE5, CHR 0x88, CHR 0x9D, CHR 0xE5, CHR 0xA7, CHR 0x8B, CHR 0xE5, CHR 0x8C, CHR 0x96] @ ''WiFi...''"

text \<open>
  Modelled from the spec: the persisted configuration (\<^verbatim>\<open>config_get\<close>,
  \<^verbatim>\<open>config_save\<close>), the Wi-Fi client (\<^verbatim>\<open>wifi_connect\<close>,
  \<^verbatim>\<open>wifi_start_softap\<close>), the button handler and \<^verbatim>\<open>vTaskDelay\<close> are
  collaborators outside the sources. The configuration is a store of string
  key/value pairs, read with a default and written back; a connection attempt succeeds
  or fails as the surroundings decide (\<open>wifi_accepts\<close>); a delay lets the time pass.
\<close>

record boot_env =
  init_creations :: nat
  show_creations :: nat
  wifi_accepts :: "string \<Rightarrow> string \<Rightarrow> bool"

definition config_get :: "string \<Rightarrow> string \<Rightarrow> state \<Rightarrow> string" where
  "config_get key default_value s =
     (case map_of (config s) key of None \<Rightarrow> default_value | Some v \<Rightarrow> v)"

definition config_save :: "string \<Rightarrow> string \<Rightarrow> state \<Rightarrow> state" where
  "config_save key v s =
     s\<lparr>config := (key, v) # filter (\<lambda>kv. fst kv \<noteq> key) (config s),
       events := events s @ [ConfigSave key v]\<rparr>"

definition wifi_connect :: "boot_env \<Rightarrow> string \<Rightarrow> string \<Rightarrow> state \<Rightarrow> bool \<times> state" where
  "wifi_connect env ssid password s =
     (wifi_accepts env ssid password, s\<lparr>events := events s @ [WifiConnect ssid password]\<rparr>)"

definition wifi_start_softap :: "state \<Rightarrow> state" where
  "wifi_start_softap s = s\<lparr>events := events s @ [SoftAP]\<rparr>"

definition vTaskDelay :: "nat \<Rightarrow> state \<Rightarrow> state" where
  "vTaskDelay ms s = s\<lparr>timer_us := timer_us s + ms * 1000\<rparr>"

text \<open>
  The network step of \<^verbatim>\<open>main_task\<close>: the lines from the two \<^verbatim>\<open>config_get\<close> calls
  to the end of the \<^verbatim>\<open>if\<close>. The result of connecting with stored credentials is
  not looked at.
\<close>

definition main_task_network :: "boot_env \<Rightarrow> state \<Rightarrow> state" where
  "main_task_network env s =
     (let ssid = config_get ''wifi_ssid'' [] s;
          password = config_get ''wifi_password'' [] s
      in if length ssid > 0 then snd (wifi_connect env ssid password s)
         else let (connected, s1) = wifi_connect env ''BE3600'' ''19930101'' s in
           if connected
           then config_save ''wifi_password'' ''19930101'' (config_save ''wifi_ssid'' ''BE3600'' s1)
           else wifi_start_softap s1)"

text \<open>
  \<^verbatim>\<open>main_task\<close> from its first line to the point where it sets
  \<^verbatim>\<open>system_initialized\<close>. What follows in the source is the idle loop
  \<^verbatim>\<open>while (1) vTaskDelay(...)\<close>, which only keeps the task alive. The initialisation
  calls whose result is only logged (fonts, clock, motion sensor, SD card, audio,
  \<^verbatim>\<open>config_init\<close>, \<^verbatim>\<open>wifi_init\<close>) change nothing in this state.
\<close>

definition main_task_boot :: "boot_env \<Rightarrow> state \<Rightarrow> state" where
  "main_task_boot env s0 =
     (let s = vTaskDelay 100 s0;
          s = vTaskDelay 200 s;
          s = loading_screen_init (init_creations env) s;
          s = loading_screen_show (show_creations env) s;
          s = vTaskDelay 100 s;
          s = loading_screen_set_message MSG_INIT_HARDWARE s;
          s = loading_screen_set_progress 10 s;
          s = s\<lparr>pwr_callback := Some Pwr_button_callback,
                boot_callback := Some Boot_button_callback\<rparr>;
          s = loading_screen_set_progress 20 s;
          s = loading_screen_set_progress 30 s;
          s = loading_screen_set_progress 40 s;
          s = loading_screen_set_progress 50 s;
          s = loading_screen_set_message MSG_INIT_SD s;
          s = loading_screen_set_progress 55 s;
          s = loading_screen_set_message MSG_INIT_AUDIO s;
          s = loading_screen_set_progress 60 s;
          s = loading_screen_set_message MSG_LOAD_CONFIG s;
          s = loading_screen_set_progress 70 s;
          s = loading_screen_set_message MSG_INIT_WIFI s;
          s = loading_screen_set_progress 80 s;
          s = loading_screen_set_message MSG_CONNECTING s;
          s = main_task_network env s;
          s = loading_screen_set_progress 90 s;
          s = launcher_set_app_launch_callback (Some Main_app_launch_callback) s;
          s = loading_screen_set_progress 100 s;
          s = loading_screen_set_message MSG_READY s;
          s = vTaskDelay 500 s;
          s = loading_screen_hide s;
          s = standby_screen_show s
      in s\<lparr>system_initialized := True\<rparr>)"

text \<open>
  The state in which \<^verbatim>\<open>app_main\<close> starts the tasks: nothing constructed, nothing
  visible. \<open>d\<close> tells whether \<^verbatim>\<open>bsp_display_start\<close> produced a display, \<open>cfg\<close> is
  the persisted configuration found at boot.
\<close>

definition initial_state :: "bool \<Rightarrow> (string \<times> string) list \<Rightarrow> state" where
  "initial_state d cfg =
     \<lparr>lv_display = d, lv_next = 0, lv_scr_act = None, timer_us = 0, events = [],
      standby_screen = None, standby_visible = False, last_update = 0,
      loading_screen = None, logo_label = None, message_label = None, spinner = None,
      progress_bar = None, loading_visible = False, spinner_angle = 0,
      last_spinner_update = 0, message_text = [], bar_value = 0,
      launcher_screen = None, app_smart_response = None, app_dify = None,
      app_launch_callback = None, launcher_visible = False,
      system_initialized = False, pwr_callback = None, boot_callback = None,
      config = cfg\<rparr>"

section \<open>Sequences of screen operations\<close>

datatype screen_op =
    Standby_show | Standby_hide
  | Loading_show nat | Loading_hide
  | Launcher_show | Launcher_hide
  | Pwr_button | Boot_button
  | Standby_touch lv_event_code
  | App_button lv_event_code AppType

fun step :: "state \<Rightarrow> screen_op \<Rightarrow> state" where
  "step s Standby_show = standby_screen_show s"
| "step s Standby_hide = standby_screen_hide s"
| "step s (Loading_show n) = loading_screen_show n s"
| "step s Loading_hide = loading_screen_hide s"
| "step s Launcher_show = launcher_show s"
| "step s Launcher_hide = launcher_hide s"
| "step s Pwr_button = pwr_button_callback s"
| "step s Boot_button = boot_button_callback s"
| "step s (Standby_touch code) = standby_touch_event_cb code s"
| "step s (App_button code app_type) = app_btn_event_cb code app_type s"

definition run :: "screen_op list \<Rightarrow> state \<Rightarrow> state" where
  "run ops s = foldl step s ops"

definition visible_count :: "state \<Rightarrow> nat" where
  "visible_count s =
     (if standby_visible s then 1 else 0) + (if loading_visible s then 1 else 0)
       + (if launcher_visible s then 1 else 0)"


text \<open>How many screens are flagged visible.\<close>

definition at_most_one_visible :: "state \<Rightarrow> bool" where
  "at_most_one_visible s = (visible_count s \<le> 1)"

definition exactly_one_visible :: "state \<Rightarrow> bool" where
  "exactly_one_visible s = (visible_count s = 1)"

text \<open>
  The operations that the touch screen drives, and the hide calls: each of them hides
  before it shows.
\<close>

fun touch_driven :: "screen_op \<Rightarrow> bool" where
  "touch_driven Standby_hide = True"
| "touch_driven Loading_hide = True"
| "touch_driven Launcher_hide = True"
| "touch_driven (Standby_touch code) = True"
| "touch_driven (App_button code app_type) = True"
| "touch_driven other = False"

text \<open>
  The launch as the spec words it, to compare with \<open>app_btn_event_cb\<close>: the Launcher is
  marked not visible, then the launch callback shows the application, and nothing else
  happens.
\<close>

definition spec_app_click :: "AppLaunchCallback \<Rightarrow> AppType \<Rightarrow> state \<Rightarrow> state" where
  "spec_app_click f app_type s =
     call_AppLaunchCallback f app_type (s\<lparr>launcher_visible := False\<rparr>)"

text \<open>
  A boot with a display, no stored configuration and no network in reach; the state the
  boot ends in, with Standby shown; and the state after a touch on Standby, with the
  Launcher shown.
\<close>

definition boot_env0 :: boot_env where
  "boot_env0 = \<lparr>init_creations = 6, show_creations = 6, wifi_accepts = (\<lambda>ssid password. False)\<rparr>"

definition standby_after_boot :: state where
  "standby_after_boot = main_task_boot boot_env0 (initial_state True [])"

definition launcher_after_touch :: state where
  "launcher_after_touch = standby_touch_event_cb LV_EVENT_CLICKED standby_after_boot"

text \<open>What the firmware did to the network and the configuration, in order.\<close>

definition network_events :: "state \<Rightarrow> event list" where
  "network_events s =
     filter (\<lambda>e. case e of WifiConnect ssid password \<Rightarrow> True | ConfigSave key v \<Rightarrow> True
                  | SoftAP \<Rightarrow> True | _ \<Rightarrow> False) (events s)"

section \<open>The I2C bus singleton\<close>

text \<open>
  \<^verbatim>\<open>i2c_bus_manager.cpp\<close> keeps one static bus handle. Modelled from the spec: the
  driver calls \<^verbatim>\<open>i2c_new_master_bus\<close> and \<^verbatim>\<open>i2c_master_bus_add_device\<close> are
  outside the sources. Each returns a handle or fails, as the surroundings decide; a
  failed bus construction leaves the slot empty. The model counts the calls made to the
  driver.
\<close>

type_synonym i2c_master_bus_handle = nat
type_synonym i2c_master_dev_handle = nat

record i2c_env =
  i2c_new_master_bus :: "i2c_master_bus_handle option"
  i2c_master_bus_add_device :: "i2c_master_bus_handle \<Rightarrow> 8 word \<Rightarrow> i2c_master_dev_handle option"

record i2c_state =
  s_i2c_bus_handle :: "i2c_master_bus_handle option"
  bus_requests :: nat
  device_requests :: "(i2c_master_bus_handle \<times> 8 word) list"

definition get_i2c_bus_handle ::
    "i2c_env \<Rightarrow> i2c_state \<Rightarrow> i2c_master_bus_handle option \<times> i2c_state" where
  "get_i2c_bus_handle env s =
     (if s_i2c_bus_handle s = None
      then let s1 = s\<lparr>s_i2c_bus_handle := i2c_new_master_bus env,
                       bus_requests := bus_requests s + 1\<rparr> in
        if i2c_new_master_bus env = None then (None, s1)
        else (s_i2c_bus_handle s1, s1)
      else (s_i2c_bus_handle s, s))"

definition create_i2c_device ::
    "i2c_env \<Rightarrow> 8 word \<Rightarrow> i2c_state \<Rightarrow> i2c_master_dev_handle option \<times> i2c_state" where
  "create_i2c_device env addr s =
     (let (bus, s1) = get_i2c_bus_handle env s in
      case bus of
        None \<Rightarrow> (None, s1)
      | Some b \<Rightarrow>
          (i2c_master_bus_add_device env b addr,
           s1\<lparr>device_requests := device_requests s1 @ [(b, addr)]\<rparr>))"

section \<open>Facts shared by the proofs\<close>

subsection \<open>Showing and hiding Standby and the Launcher\<close>

lemma standby_show_props:
  "standby_visible (standby_screen_show s)"
  "standby_screen (standby_screen_show s) \<noteq> None"
  "lv_scr_act (standby_screen_show s) = standby_screen (standby_screen_show s)"
  "launcher_visible (standby_screen_show s) = launcher_visible s"
  "loading_visible (standby_screen_show s) = loading_visible s"
  "last (events (standby_screen_show s)) = Loaded (standby_screen (standby_screen_show s))"
  by (auto simp add: standby_screen_show_def standby_screen_init_def standby_screen_update_def
      lv_screen_load_def Let_def split: option.splits)

lemma standby_show_screen:
  "standby_screen (standby_screen_show s) =
     (case standby_screen s of None \<Rightarrow> Some (lv_next s) | Some scr \<Rightarrow> Some scr)"
  by (auto simp add: standby_screen_show_def standby_screen_init_def standby_screen_update_def
      lv_screen_load_def Let_def split: option.splits)


lemma standby_show_events:
  "events (standby_screen_show s) =
     events s @ (case standby_screen s of None \<Rightarrow> [Created (lv_next s)] | Some scr \<Rightarrow> [])
       @ [Loaded (standby_screen (standby_screen_show s))]"
  by (auto simp add: standby_screen_show_def standby_screen_init_def standby_screen_update_def
      lv_screen_load_def Let_def split: option.splits)

lemma launcher_show_props:
  "launcher_visible (launcher_show s)"
  "launcher_screen (launcher_show s) \<noteq> None"
  "lv_scr_act (launcher_show s) = launcher_screen (launcher_show s)"
  "standby_visible (launcher_show s) = standby_visible s"
  "loading_visible (launcher_show s) = loading_visible s"
  by (auto simp add: launcher_show_def launcher_init_def lv_screen_load_def Let_def)

lemma launcher_show_frame:
  "standby_screen (launcher_show s) = standby_screen s"
  "loading_screen (launcher_show s) = loading_screen s"
  "launcher_screen (launcher_show s) =
     (case launcher_screen s of None \<Rightarrow> Some (lv_next s) | Some scr \<Rightarrow> Some scr)"
  by (simp_all add: launcher_show_def launcher_init_def lv_screen_load_def Let_def
      split: option.splits)


lemma launcher_hide_props:
  "\<not> launcher_visible (launcher_hide s)"
  "standby_visible (launcher_hide s)"
  "loading_visible (launcher_hide s) = loading_visible s"
  "standby_screen (launcher_hide s) \<noteq> None"
  "lv_scr_act (launcher_hide s) = standby_screen (launcher_hide s)"
  by (simp_all add: launcher_hide_def standby_show_props)

lemma launcher_hide_standby_screen:
  "standby_screen (launcher_hide s) =
     (case standby_screen s of None \<Rightarrow> Some (lv_next s) | Some scr \<Rightarrow> Some scr)"
  by (simp add: launcher_hide_def standby_show_screen split: option.splits)

lemma launcher_hide_screens:
  "launcher_screen (launcher_hide s) = launcher_screen s"
  "loading_screen (launcher_hide s) = loading_screen s"
  by (simp_all add: launcher_hide_def standby_screen_show_def standby_screen_init_def
      standby_screen_update_def lv_screen_load_def Let_def)

lemma launcher_hide_events:
  "events (launcher_hide s) =
     events s @ (case standby_screen s of None \<Rightarrow> [Created (lv_next s)] | Some scr \<Rightarrow> [])
       @ [Loaded (standby_screen (launcher_hide s))]"
  by (simp add: launcher_hide_def standby_show_events split: option.splits)

lemma hide_frame:
  "standby_screen (standby_screen_hide s) = standby_screen s"
  "launcher_screen (standby_screen_hide s) = launcher_screen s"
  "loading_screen (standby_screen_hide s) = loading_screen s"
  "standby_screen (loading_screen_hide s) = standby_screen s"
  "launcher_screen (loading_screen_hide s) = launcher_screen s"
  "loading_screen (loading_screen_hide s) = loading_screen s"
  by (simp_all add: standby_screen_hide_def loading_screen_hide_def)

subsection \<open>Constructing and showing the Loading screen\<close>

lemma loading_init_frame:
  "standby_visible (loading_screen_init n s) = standby_visible s"
  "launcher_visible (loading_screen_init n s) = launcher_visible s"
  "standby_screen (loading_screen_init n s) = standby_screen s"
  "launcher_screen (loading_screen_init n s) = launcher_screen s"
  "app_launch_callback (loading_screen_init n s) = app_launch_callback s"
  "config (loading_screen_init n s) = config s"
  by (simp_all add: loading_screen_init_def Let_def)

lemma loading_init_screen:
  "loading_screen (loading_screen_init n s) =
     (if loading_screen s = None \<and> lv_display s \<and> 0 < n then Some (lv_next s)
      else loading_screen s)"
  "lv_display (loading_screen_init n s) = lv_display s"
  by (auto simp add: loading_screen_init_def Let_def)

lemma loading_init_events:
  "events (loading_screen_init n s) =
     events s @ (if loading_screen s = None \<and> lv_display s \<and> 0 < n
                 then [Created (lv_next s)] else [])"
  by (simp add: loading_screen_init_def Let_def)

lemma loading_show_frame:
  "standby_visible (loading_screen_show n s) = standby_visible s"
  "launcher_visible (loading_screen_show n s) = launcher_visible s"
  "standby_screen (loading_screen_show n s) = standby_screen s"
  "launcher_screen (loading_screen_show n s) = launcher_screen s"
  "app_launch_callback (loading_screen_show n s) = app_launch_callback s"
  "config (loading_screen_show n s) = config s"
  by (simp_all add: loading_screen_show_def loading_init_frame lv_screen_load_def
      loading_screen_set_message_def loading_screen_set_progress_def Let_def)


lemma loading_show_props:
  assumes "lv_display s" and "loading_screen s \<noteq> None \<or> 0 < n"
  shows "loading_visible (loading_screen_show n s)"
    and "loading_screen (loading_screen_show n s) \<noteq> None"
    and "lv_scr_act (loading_screen_show n s) = loading_screen (loading_screen_show n s)"
  using assms
  by (auto simp add: loading_screen_show_def loading_init_screen lv_screen_load_def
      loading_screen_set_message_def loading_screen_set_progress_def Let_def)

lemma loading_show_blocked:
  "\<not> lv_display s \<Longrightarrow> loading_screen_show n s = s"
  by (auto simp add: loading_screen_show_def loading_screen_init_def Let_def)

lemma loading_show_events:
  "events (loading_screen_show n s) =
     events s
       @ (if loading_screen s = None \<and> lv_display s \<and> 0 < n then [Created (lv_next s)] else [])
       @ (if lv_display s \<and> (loading_screen s \<noteq> None \<or> 0 < n)
          then [Loaded (loading_screen (loading_screen_show n s))] else [])"
  by (simp add: loading_screen_show_def loading_init_events loading_init_screen
      lv_screen_load_def loading_screen_set_message_def loading_screen_set_progress_def Let_def)

lemma progress_bar_after_init:
  "progress_bar (loading_screen_init 6 (initial_state True [])) = Some 5"
  by (simp add: loading_screen_init_def initial_state_def Let_def)

subsection \<open>Counting flags and constructions\<close>

lemma at_most_one_visible_iff:
  "at_most_one_visible s =
     (\<not> (standby_visible s \<and> loading_visible s) \<and> \<not> (standby_visible s \<and> launcher_visible s)
      \<and> \<not> (loading_visible s \<and> launcher_visible s))"
  by (simp add: at_most_one_visible_def visible_count_def)

lemma exactly_one_visible_iff:
  "exactly_one_visible s =
     (standby_visible s \<and> \<not> loading_visible s \<and> \<not> launcher_visible s
      \<or> \<not> standby_visible s \<and> loading_visible s \<and> \<not> launcher_visible s
      \<or> \<not> standby_visible s \<and> \<not> loading_visible s \<and> launcher_visible s)"
  by (simp add: exactly_one_visible_def visible_count_def)


subsection \<open>The launch callback\<close>

lemma call_callback_frame:
  "events (call_AppLaunchCallback f app_type s) = events s @ [AppShown app_type]"
  "launcher_visible (call_AppLaunchCallback f app_type s) = launcher_visible s"
  "standby_visible (call_AppLaunchCallback f app_type s) = standby_visible s"
  "standby_screen (call_AppLaunchCallback f app_type s) = standby_screen s"
  "lv_next (call_AppLaunchCallback f app_type s) = lv_next s"
  by (simp_all add: call_AppLaunchCallback_def main_app_launch_callback_def
      smart_response_app_show_def dify_app_show_def
      split: AppLaunchCallback.splits AppType.splits)


subsection \<open>Sequences of operations\<close>

lemma touch_step_keeps:
  assumes "touch_driven x" and "at_most_one_visible s" and "\<not> loading_visible s"
  shows "at_most_one_visible (step s x) \<and> \<not> loading_visible (step s x)"
proof (cases x)
  case Standby_hide
  with assms show ?thesis by (simp add: at_most_one_visible_iff standby_screen_hide_def)
next
  case Loading_hide
  with assms show ?thesis by (simp add: at_most_one_visible_iff loading_screen_hide_def)
next
  case Launcher_hide
  with assms show ?thesis by (simp add: at_most_one_visible_iff launcher_hide_def standby_show_props)
next
  case (Standby_touch code)
  with assms show ?thesis
    by (simp add: at_most_one_visible_iff standby_touch_event_cb_def launcher_show_props
        standby_screen_hide_def)
next
  case (App_button code app_type)
  with assms show ?thesis
    by (simp add: at_most_one_visible_iff app_btn_event_cb_def launcher_hide_def standby_show_props
        call_AppLaunchCallback_def main_app_launch_callback_def smart_response_app_show_def
        dify_app_show_def split: option.splits AppLaunchCallback.splits AppType.splits)
qed (use assms in simp_all)

lemma touch_run_keeps:
  "\<forall>x \<in> set ops. touch_driven x \<Longrightarrow> at_most_one_visible s \<Longrightarrow> \<not> loading_visible s \<Longrightarrow>
     at_most_one_visible (run ops s) \<and> \<not> loading_visible (run ops s)"
proof (induction ops arbitrary: s)
  case Nil
  then show ?case by (simp add: run_def)
next
  case (Cons x ops)
  have "at_most_one_visible (step s x) \<and> \<not> loading_visible (step s x)"
    using Cons.prems by (intro touch_step_keeps) simp_all
  with Cons.IH [of "step s x"] Cons.prems show ?case by (simp add: run_def)
qed





lemma buttons_agree:
  "\<not> (standby_visible s \<and> launcher_visible s) \<Longrightarrow> pwr_button_callback s = boot_button_callback s"
  by (auto simp add: pwr_button_callback_def boot_button_callback_def
      standby_screen_is_visible_def launcher_is_visible_def)

subsection \<open>The boot sequence\<close>

lemma frame_launcher_visible:
  "launcher_visible (vTaskDelay ms s) = launcher_visible s"
  "launcher_visible (loading_screen_init n s) = launcher_visible s"
  "launcher_visible (loading_screen_set_message m s) = launcher_visible s"
  "launcher_visible (loading_screen_set_progress p s) = launcher_visible s"
  "launcher_visible (main_task_network env s) = launcher_visible s"
  "launcher_visible (launcher_set_app_launch_callback cb s) = launcher_visible s"
  "launcher_visible (loading_screen_hide s) = launcher_visible s"
  by (simp_all add: vTaskDelay_def loading_screen_init_def loading_screen_set_message_def
      loading_screen_set_progress_def main_task_network_def launcher_set_app_launch_callback_def
      loading_screen_hide_def wifi_connect_def config_save_def wifi_start_softap_def Let_def)

lemma frame_loading_visible:
  "loading_visible (loading_screen_hide s) = False"
  by (simp add: loading_screen_hide_def)

lemma frame_callback:
  "app_launch_callback (vTaskDelay ms s) = app_launch_callback s"
  "app_launch_callback (loading_screen_set_message m s) = app_launch_callback s"
  "app_launch_callback (loading_screen_set_progress p s) = app_launch_callback s"
  "app_launch_callback (launcher_set_app_launch_callback cb s) = cb"
  "app_launch_callback (loading_screen_hide s) = app_launch_callback s"
  "app_launch_callback (standby_screen_show s) = app_launch_callback s"
  "app_launch_callback (standby_screen_hide s) = app_launch_callback s"
  "app_launch_callback (launcher_show s) = app_launch_callback s"
  by (simp_all add: vTaskDelay_def loading_screen_set_message_def
      loading_screen_set_progress_def launcher_set_app_launch_callback_def
      loading_screen_hide_def standby_screen_show_def standby_screen_init_def
      standby_screen_update_def lv_screen_load_def standby_screen_hide_def
      launcher_show_def launcher_init_def Let_def)

lemma config_frame:
  "config (vTaskDelay ms s) = config s"
  "config (loading_screen_set_message m s) = config s"
  "config (loading_screen_set_progress p s) = config s"
  "config (launcher_set_app_launch_callback cb s) = config s"
  "config (loading_screen_hide s) = config s"
  "config (standby_screen_show s) = config s"
  by (simp_all add: vTaskDelay_def loading_screen_set_message_def
      loading_screen_set_progress_def launcher_set_app_launch_callback_def
      loading_screen_hide_def standby_screen_show_def standby_screen_init_def
      standby_screen_update_def lv_screen_load_def Let_def)

lemma network_events_frame:
  "network_events (vTaskDelay ms s) = network_events s"
  "network_events (loading_screen_init n s) = network_events s"
  "network_events (loading_screen_show n s) = network_events s"
  "network_events (loading_screen_set_message m s) = network_events s"
  "network_events (loading_screen_set_progress p s) = network_events s"
  "network_events (launcher_set_app_launch_callback cb s) = network_events s"
  "network_events (loading_screen_hide s) = network_events s"
  "network_events (standby_screen_show s) = network_events s"
  "network_events (s\<lparr>pwr_callback := a, boot_callback := b\<rparr>) = network_events s"
  "network_events (s\<lparr>system_initialized := c\<rparr>) = network_events s"
  by (simp_all add: network_events_def loading_init_events loading_show_events
      standby_show_events split: option.splits)
    (simp_all add: vTaskDelay_def loading_screen_set_message_def
      loading_screen_set_progress_def launcher_set_app_launch_callback_def
      loading_screen_hide_def)

lemma network_step_config:
  "config (main_task_network env s) =
     (if config_get ''wifi_ssid'' [] s = [] \<and> wifi_accepts env ''BE3600'' ''19930101''
      then (''wifi_password'', ''19930101'')
             # filter (\<lambda>kv. fst kv \<noteq> ''wifi_password'')
                 ((''wifi_ssid'', ''BE3600'') # filter (\<lambda>kv. fst kv \<noteq> ''wifi_ssid'') (config s))
      else config s)"
  by (simp add: main_task_network_def wifi_connect_def config_save_def wifi_start_softap_def
      Let_def)

lemma network_step_events:
  "network_events (main_task_network env s) =
     network_events s @
       (if config_get ''wifi_ssid'' [] s \<noteq> []
        then [WifiConnect (config_get ''wifi_ssid'' [] s) (config_get ''wifi_password'' [] s)]
        else WifiConnect ''BE3600'' ''19930101''
               # (if wifi_accepts env ''BE3600'' ''19930101''
                  then [ConfigSave ''wifi_ssid'' ''BE3600'', ConfigSave ''wifi_password'' ''19930101'']
                  else [SoftAP]))"
  by (simp add: main_task_network_def wifi_connect_def config_save_def wifi_start_softap_def
      network_events_def Let_def)

lemma boot_props:
  "system_initialized (main_task_boot env s0)"
  "standby_visible (main_task_boot env s0)"
  "\<not> loading_visible (main_task_boot env s0)"
  "launcher_visible (main_task_boot env s0) = launcher_visible s0"
  "app_launch_callback (main_task_boot env s0) = Some Main_app_launch_callback"
  "standby_screen (main_task_boot env s0) \<noteq> None"
  "lv_scr_act (main_task_boot env s0) = standby_screen (main_task_boot env s0)"
  by (simp_all add: main_task_boot_def Let_def standby_show_props frame_launcher_visible
      frame_loading_visible frame_callback loading_show_frame)

lemma boot_config:
  "config (main_task_boot env s0) =
     (if config_get ''wifi_ssid'' [] s0 = [] \<and> wifi_accepts env ''BE3600'' ''19930101''
      then (''wifi_password'', ''19930101'')
             # filter (\<lambda>kv. fst kv \<noteq> ''wifi_password'')
                 ((''wifi_ssid'', ''BE3600'') # filter (\<lambda>kv. fst kv \<noteq> ''wifi_ssid'') (config s0))
      else config s0)"
  by (simp add: main_task_boot_def Let_def config_frame loading_init_frame loading_show_frame
      network_step_config config_get_def)

lemma boot_network_events:
  "network_events (main_task_boot env s0) =
     network_events s0 @
       (if config_get ''wifi_ssid'' [] s0 \<noteq> []
        then [WifiConnect (config_get ''wifi_ssid'' [] s0) (config_get ''wifi_password'' [] s0)]
        else WifiConnect ''BE3600'' ''19930101''
               # (if wifi_accepts env ''BE3600'' ''19930101''
                  then [ConfigSave ''wifi_ssid'' ''BE3600'', ConfigSave ''wifi_password'' ''19930101'']
                  else [SoftAP]))"
  by (simp add: main_task_boot_def Let_def network_events_frame network_step_events
      config_get_def config_frame loading_init_frame loading_show_frame)

lemma after_boot:
  "standby_visible standby_after_boot"
  "\<not> launcher_visible standby_after_boot"
  "\<not> loading_visible standby_after_boot"
  "app_launch_callback standby_after_boot = Some Main_app_launch_callback"
  by (simp_all add: standby_after_boot_def boot_props initial_state_def)

lemma after_touch:
  "\<not> standby_visible launcher_after_touch"
  "launcher_visible launcher_after_touch"
  "app_launch_callback launcher_after_touch = Some Main_app_launch_callback"
  by (simp_all add: launcher_after_touch_def standby_touch_event_cb_def launcher_show_props
      frame_callback after_boot) (simp add: standby_screen_hide_def)

section \<open>Progress is clamped\<close>

text \<open>
  Claim C7. Once the progress bar exists, \<^verbatim>\<open>loading_screen_set_progress\<close> stores its
  input clamped to the range from 0 to 100, whatever the input: \<open>-5\<close> stores 0, 150
  stores 100 and 55 stores 55.
\<close>

theorem set_progress_clamps:
  "progress_bar s \<noteq> None \<Longrightarrow>
     bar_value (loading_screen_set_progress percent s) = max 0 (min 100 percent)
     \<and> bar_value (loading_screen_set_progress (- 5) s) = 0
     \<and> bar_value (loading_screen_set_progress 150 s) = 100
     \<and> bar_value (loading_screen_set_progress 55 s) = 55"
  by (simp add: loading_screen_set_progress_def clamp_percent_def)

theorem set_progress_clamps_witness:
  "progress_bar (loading_screen_init 6 (initial_state True [])) \<noteq> None
   \<and> bar_value (loading_screen_set_progress 150 (loading_screen_init 6 (initial_state True []))) = 100"
  using set_progress_clamps [of "loading_screen_init 6 (initial_state True [])" 150]
  by (simp add: progress_bar_after_init)

section \<open>Hiding the Launcher shows Standby\<close>

text \<open>
  Claim C10. \<^verbatim>\<open>launcher_hide\<close> does more than clear the Launcher's flag. In every
  state, after it returns the Launcher's flag is false, the Standby flag is true, the
  Standby screen object exists (the one there was, or a new one) and is the screen on
  the render surface, and loading it was the last thing done. The same holds after a
  click on an application button, where \<^verbatim>\<open>launcher_hide\<close> runs last: launching an
  application ends with Standby shown again.
\<close>

theorem launcher_hide_shows_standby:
  "\<not> launcher_visible (launcher_hide s)
   \<and> standby_visible (launcher_hide s)
   \<and> standby_screen (launcher_hide s) \<noteq> None
   \<and> lv_scr_act (launcher_hide s) = standby_screen (launcher_hide s)
   \<and> standby_screen (launcher_hide s) =
       (case standby_screen s of None \<Rightarrow> Some (lv_next s) | Some scr \<Rightarrow> Some scr)
   \<and> last (events (launcher_hide s)) = Loaded (standby_screen (launcher_hide s))
   \<and> standby_visible (app_btn_event_cb LV_EVENT_CLICKED app_type s)
   \<and> standby_screen (app_btn_event_cb LV_EVENT_CLICKED app_type s) \<noteq> None
   \<and> lv_scr_act (app_btn_event_cb LV_EVENT_CLICKED app_type s)
       = standby_screen (app_btn_event_cb LV_EVENT_CLICKED app_type s)
   \<and> last (events (app_btn_event_cb LV_EVENT_CLICKED app_type s))
       = Loaded (standby_screen (app_btn_event_cb LV_EVENT_CLICKED app_type s))"
  by (simp add: launcher_hide_def app_btn_event_cb_def standby_show_props standby_show_screen
      split: option.splits)

theorem launcher_hide_shows_standby_witness:
  "standby_visible (launcher_hide (initial_state True []))
   \<and> standby_screen (launcher_hide (initial_state True [])) = Some 0
   \<and> lv_scr_act (launcher_hide (initial_state True [])) = Some 0"
  using launcher_hide_shows_standby [of "initial_state True []" APP_SMART_RESPONSE]
  by (simp add: initial_state_def)

section \<open>Which screens are flagged visible\<close>

text \<open>
  Claim C1, as amended. A show call sets the flag of its own screen and puts that
  screen's object on the render surface; it leaves the flags of the other two screens as
  they were. So exactly one flag is true after the call if and only if the other two
  were false before it. For the Loading screen this needs a display and a screen object
  (there already, or one that LVGL can create). The operations that hide before they
  show (the hide calls, a touch on Standby, a click on an application button) keep at
  most one flag true, from any state where at most one is true and Loading is hidden.
\<close>

theorem show_sets_own_flag:
  "(standby_visible (standby_screen_show s)
      \<and> standby_screen (standby_screen_show s) \<noteq> None
      \<and> lv_scr_act (standby_screen_show s) = standby_screen (standby_screen_show s)
      \<and> loading_visible (standby_screen_show s) = loading_visible s
      \<and> launcher_visible (standby_screen_show s) = launcher_visible s
      \<and> (exactly_one_visible (standby_screen_show s)
           \<longleftrightarrow> \<not> loading_visible s \<and> \<not> launcher_visible s))
   \<and> (launcher_visible (launcher_show s)
      \<and> launcher_screen (launcher_show s) \<noteq> None
      \<and> lv_scr_act (launcher_show s) = launcher_screen (launcher_show s)
      \<and> standby_visible (launcher_show s) = standby_visible s
      \<and> loading_visible (launcher_show s) = loading_visible s
      \<and> (exactly_one_visible (launcher_show s)
           \<longleftrightarrow> \<not> standby_visible s \<and> \<not> loading_visible s))
   \<and> (lv_display s \<and> (loading_screen s \<noteq> None \<or> 0 < n) \<longrightarrow>
        loading_visible (loading_screen_show n s)
      \<and> loading_screen (loading_screen_show n s) \<noteq> None
      \<and> lv_scr_act (loading_screen_show n s) = loading_screen (loading_screen_show n s)
      \<and> (exactly_one_visible (loading_screen_show n s)
           \<longleftrightarrow> \<not> standby_visible s \<and> \<not> launcher_visible s))
   \<and> standby_visible (loading_screen_show n s) = standby_visible s
   \<and> launcher_visible (loading_screen_show n s) = launcher_visible s
   \<and> ((\<forall>x \<in> set ops. touch_driven x) \<and> at_most_one_visible s \<and> \<not> loading_visible s
        \<longrightarrow> at_most_one_visible (run ops s))"
proof -
  have standby: "exactly_one_visible (standby_screen_show s)
      \<longleftrightarrow> \<not> loading_visible s \<and> \<not> launcher_visible s"
    by (simp add: exactly_one_visible_iff standby_show_props)
  have launcher: "exactly_one_visible (launcher_show s)
      \<longleftrightarrow> \<not> standby_visible s \<and> \<not> loading_visible s"
    by (simp add: exactly_one_visible_iff launcher_show_props)
  have loading: "exactly_one_visible (loading_screen_show n s)
      \<longleftrightarrow> \<not> standby_visible s \<and> \<not> launcher_visible s"
    if "lv_display s" and "loading_screen s \<noteq> None \<or> 0 < n"
    using that by (simp add: exactly_one_visible_iff loading_show_props loading_show_frame)
  have seq: "at_most_one_visible (run ops s)"
    if "\<forall>x \<in> set ops. touch_driven x" and "at_most_one_visible s" and "\<not> loading_visible s"
    using touch_run_keeps [OF that] by simp
  show ?thesis
    using standby launcher loading seq
    by (simp add: standby_show_props launcher_show_props loading_show_props loading_show_frame)
qed

text \<open>
  Two screens are flagged after Standby and then the Launcher are shown; and no screen
  is flagged after a first show of Loading without a display.
\<close>

theorem show_sets_own_flag_counterexample:
  "\<not> at_most_one_visible (run [Standby_show, Launcher_show] (initial_state True []))
   \<and> visible_count (run [Loading_show 6] (initial_state False [])) = 0"
  by (simp add: run_def visible_count_def at_most_one_visible_iff standby_show_props launcher_show_props
      loading_show_blocked initial_state_def)

theorem show_sets_own_flag_witness:
  "at_most_one_visible (run [Standby_touch LV_EVENT_CLICKED, App_button LV_EVENT_CLICKED APP_DIFY_XIAOZHI]
       (standby_screen_show (initial_state True [])))
   \<and> exactly_one_visible (loading_screen_show 6 (initial_state True []))"
  using show_sets_own_flag [of "initial_state True []" 6 "[]"]
    show_sets_own_flag [of "standby_screen_show (initial_state True [])" 6
      "[Standby_touch LV_EVENT_CLICKED, App_button LV_EVENT_CLICKED APP_DIFY_XIAOZHI]"]
  by (simp add: at_most_one_visible_iff standby_show_props) (simp add: initial_state_def)

section \<open>The PWR button\<close>

text \<open>
  Claim C3. The claim: pressing the PWR button while Standby is flagged visible makes
  the Launcher visible and Standby not visible, and pressing it while the Launcher is
  visible goes back to Standby. The code, in the state the boot ends in: Standby is
  flagged and the Launcher is not; after the press the Launcher is flagged and Standby is
  flagged still, because \<^verbatim>\<open>pwr_button_callback\<close> calls \<^verbatim>\<open>launcher_show\<close> without
  \<^verbatim>\<open>standby_screen_hide\<close> (the touch handler \<^verbatim>\<open>standby_touch_event_cb\<close> calls
  both). A second press, with the Launcher visible, finds Standby flagged and shows the
  Launcher again; it does not go back to Standby.
\<close>

theorem pwr_button_leaves_standby_flagged:
  "standby_visible standby_after_boot
   \<and> \<not> launcher_visible standby_after_boot
   \<and> launcher_visible (pwr_button_callback standby_after_boot)
   \<and> standby_visible (pwr_button_callback standby_after_boot)
   \<and> launcher_visible (pwr_button_callback (pwr_button_callback standby_after_boot))
   \<and> standby_visible (pwr_button_callback (pwr_button_callback standby_after_boot))"
  by (simp add: pwr_button_callback_def standby_screen_is_visible_def launcher_is_visible_def
      launcher_show_props after_boot)

section \<open>The two buttons\<close>

text \<open>
  Claim C4. The claim: in every reachable state the PWR and the BOOT callback lead to
  the same state. The code, in the state reached from the end of the boot by one press
  of PWR, where Standby and the Launcher are both flagged: PWR tests the Standby flag
  first and shows the Launcher, BOOT tests the Launcher flag first and hides it. The
  two results differ.
\<close>

theorem buttons_differ_after_pwr:
  "launcher_visible (pwr_button_callback (pwr_button_callback standby_after_boot))
   \<and> \<not> launcher_visible (boot_button_callback (pwr_button_callback standby_after_boot))
   \<and> pwr_button_callback (pwr_button_callback standby_after_boot)
       \<noteq> boot_button_callback (pwr_button_callback standby_after_boot)"
proof -
  let ?s = "pwr_button_callback standby_after_boot"
  have s: "standby_visible ?s" "launcher_visible ?s"
    by (simp_all add: pwr_button_callback_def standby_screen_is_visible_def
        launcher_is_visible_def launcher_show_props after_boot)
  have p: "launcher_visible (pwr_button_callback ?s)"
    using s by (simp add: pwr_button_callback_def standby_screen_is_visible_def launcher_show_props)
  have b: "\<not> launcher_visible (boot_button_callback ?s)"
    using s by (simp add: boot_button_callback_def launcher_is_visible_def launcher_hide_def
        standby_show_props)
  from p b have "pwr_button_callback ?s \<noteq> boot_button_callback ?s" by auto
  with p b show ?thesis by simp
qed

section \<open>A click on an application button\<close>

text \<open>
  What the click handler does, in every state with a launch callback installed: it
  calls the callback for the button's application, once, while the Launcher is still
  flagged visible, and then calls \<^verbatim>\<open>launcher_hide\<close>. What is recorded, in order:
  the application shown, the Standby screen created if there was none, the Standby
  screen loaded.
\<close>

lemma app_click_trace:
  assumes cb: "app_launch_callback s = Some f"
  shows "app_btn_event_cb LV_EVENT_CLICKED app_type s
           = launcher_hide (call_AppLaunchCallback f app_type s)"
    and "events (app_btn_event_cb LV_EVENT_CLICKED app_type s) =
           events s @ [AppShown app_type]
             @ (case standby_screen s of None \<Rightarrow> [Created (lv_next s)] | Some scr \<Rightarrow> [])
             @ [Loaded (standby_screen (app_btn_event_cb LV_EVENT_CLICKED app_type s))]"
    and "standby_screen (app_btn_event_cb LV_EVENT_CLICKED app_type s) =
           (case standby_screen s of None \<Rightarrow> Some (lv_next s) | Some scr \<Rightarrow> Some scr)"
proof -
  show eq: "app_btn_event_cb LV_EVENT_CLICKED app_type s
      = launcher_hide (call_AppLaunchCallback f app_type s)"
    by (simp add: app_btn_event_cb_def cb)
  show "events (app_btn_event_cb LV_EVENT_CLICKED app_type s) =
           events s @ [AppShown app_type]
             @ (case standby_screen s of None \<Rightarrow> [Created (lv_next s)] | Some scr \<Rightarrow> [])
             @ [Loaded (standby_screen (app_btn_event_cb LV_EVENT_CLICKED app_type s))]"
    unfolding eq
    by (simp add: launcher_hide_events call_callback_frame split: option.splits)
  show "standby_screen (app_btn_event_cb LV_EVENT_CLICKED app_type s) =
           (case standby_screen s of None \<Rightarrow> Some (lv_next s) | Some scr \<Rightarrow> Some scr)"
    unfolding eq
    by (simp add: launcher_hide_standby_screen call_callback_frame split: option.splits)
qed

lemma after_touch_standby_screen:
  "standby_screen launcher_after_touch \<noteq> None"
  by (simp add: launcher_after_touch_def standby_touch_event_cb_def launcher_show_frame
      hide_frame standby_after_boot_def boot_props)

text \<open>
  Claim C2. The claim: a click on an application icon, with the Launcher active and a
  launch callback installed, first hides the Launcher and then shows the selected
  application, these two changes and no other, with the dispatch invoked once. The
  code, in the state after the boot and a touch on Standby, where the Launcher is
  active, Standby is hidden and the callback is installed: the callback is invoked
  once, and first, while the Launcher is still flagged visible; then
  \<^verbatim>\<open>launcher_hide\<close> clears the Launcher's flag and loads the Standby screen, so the
  last thing recorded is Standby put on the render surface in place of the application
  just shown, and Standby is flagged visible. As the spec words the launch, the
  application shown would be the last thing recorded and Standby would stay hidden.
  The other transitions (\<^verbatim>\<open>standby_touch_event_cb\<close>, the end of \<^verbatim>\<open>main_task\<close>)
  hide the old screen before they show the new one.
\<close>

theorem app_click_ends_on_standby:
  "launcher_visible launcher_after_touch
   \<and> \<not> standby_visible launcher_after_touch
   \<and> app_launch_callback launcher_after_touch = Some Main_app_launch_callback
   \<and> events (app_btn_event_cb LV_EVENT_CLICKED APP_SMART_RESPONSE launcher_after_touch)
       = events launcher_after_touch
           @ [AppShown APP_SMART_RESPONSE, Loaded (standby_screen launcher_after_touch)]
   \<and> last (events (app_btn_event_cb LV_EVENT_CLICKED APP_SMART_RESPONSE launcher_after_touch))
       \<noteq> AppShown APP_SMART_RESPONSE
   \<and> standby_visible (app_btn_event_cb LV_EVENT_CLICKED APP_SMART_RESPONSE launcher_after_touch)
   \<and> lv_scr_act (app_btn_event_cb LV_EVENT_CLICKED APP_SMART_RESPONSE launcher_after_touch)
       = standby_screen launcher_after_touch
   \<and> events (spec_app_click Main_app_launch_callback APP_SMART_RESPONSE launcher_after_touch)
       = events launcher_after_touch @ [AppShown APP_SMART_RESPONSE]
   \<and> \<not> standby_visible
         (spec_app_click Main_app_launch_callback APP_SMART_RESPONSE launcher_after_touch)
   \<and> app_btn_event_cb LV_EVENT_CLICKED APP_SMART_RESPONSE launcher_after_touch
       \<noteq> spec_app_click Main_app_launch_callback APP_SMART_RESPONSE launcher_after_touch"
proof -
  let ?code = "app_btn_event_cb LV_EVENT_CLICKED APP_SMART_RESPONSE launcher_after_touch"
  let ?spec = "spec_app_click Main_app_launch_callback APP_SMART_RESPONSE launcher_after_touch"
  have cb: "app_launch_callback launcher_after_touch = Some Main_app_launch_callback"
    by (simp add: after_touch)
  obtain scr where scr: "standby_screen launcher_after_touch = Some scr"
    using after_touch_standby_screen by auto
  have obj: "standby_screen ?code = standby_screen launcher_after_touch"
    using app_click_trace(3) [OF cb, of APP_SMART_RESPONSE] scr by simp
  have ev: "events ?code = events launcher_after_touch
      @ [AppShown APP_SMART_RESPONSE, Loaded (standby_screen launcher_after_touch)]"
    using app_click_trace(2) [OF cb, of APP_SMART_RESPONSE] scr obj by simp
  have code: "standby_visible ?code" "lv_scr_act ?code = standby_screen ?code"
    by (simp_all add: app_click_trace(1) [OF cb] launcher_hide_props)
  have spec: "\<not> standby_visible ?spec"
    "events ?spec = events launcher_after_touch @ [AppShown APP_SMART_RESPONSE]"
    by (simp_all add: spec_app_click_def call_AppLaunchCallback_def
        main_app_launch_callback_def smart_response_app_show_def after_touch)
  from spec code have ne: "?code \<noteq> ?spec" by auto
  have lst: "last (events ?code) \<noteq> AppShown APP_SMART_RESPONSE"
    by (simp add: ev)
  show ?thesis
    using cb ev lst code obj spec ne by (simp add: after_touch)
qed

section \<open>Hiding twice\<close>

text \<open>
  Claim C5, as amended. \<^verbatim>\<open>standby_screen_hide\<close> and \<^verbatim>\<open>loading_screen_hide\<close>
  give the same state called twice as called once, and change nothing when the screen
  is already hidden. \<^verbatim>\<open>launcher_hide\<close> also shows Standby. Called a second time, at
  any later time \<open>t\<close>, it leaves the three visibility flags, the three screen objects
  and the screen on the render surface as the first call left them, and loads the
  Standby screen once more.
\<close>

theorem hide_twice:
  "standby_screen_hide (standby_screen_hide s) = standby_screen_hide s
   \<and> (\<not> standby_visible s \<longrightarrow> standby_screen_hide s = s)
   \<and> loading_screen_hide (loading_screen_hide s) = loading_screen_hide s
   \<and> (\<not> loading_visible s \<longrightarrow> loading_screen_hide s = s)
   \<and> launcher_visible (launcher_hide ((launcher_hide s)\<lparr>timer_us := t\<rparr>))
       = launcher_visible (launcher_hide s)
   \<and> standby_visible (launcher_hide ((launcher_hide s)\<lparr>timer_us := t\<rparr>))
       = standby_visible (launcher_hide s)
   \<and> loading_visible (launcher_hide ((launcher_hide s)\<lparr>timer_us := t\<rparr>))
       = loading_visible (launcher_hide s)
   \<and> lv_scr_act (launcher_hide ((launcher_hide s)\<lparr>timer_us := t\<rparr>))
       = lv_scr_act (launcher_hide s)
   \<and> standby_screen (launcher_hide ((launcher_hide s)\<lparr>timer_us := t\<rparr>))
       = standby_screen (launcher_hide s)
   \<and> launcher_screen (launcher_hide ((launcher_hide s)\<lparr>timer_us := t\<rparr>))
       = launcher_screen (launcher_hide s)
   \<and> loading_screen (launcher_hide ((launcher_hide s)\<lparr>timer_us := t\<rparr>))
       = loading_screen (launcher_hide s)
   \<and> events (launcher_hide ((launcher_hide s)\<lparr>timer_us := t\<rparr>))
       = events (launcher_hide s) @ [Loaded (standby_screen (launcher_hide s))]"
proof -
  have a: "\<not> standby_visible s \<Longrightarrow> standby_screen_hide s = s"
    by (cases s) (simp add: standby_screen_hide_def)
  have b: "\<not> loading_visible s \<Longrightarrow> loading_screen_hide s = s"
    by (cases s) (simp add: loading_screen_hide_def)
  obtain scr where scr: "standby_screen (launcher_hide s) = Some scr"
    using launcher_hide_props(4) [of s] by auto
  have c: "standby_screen (launcher_hide ((launcher_hide s)\<lparr>timer_us := t\<rparr>)) = Some scr"
    using scr by (simp add: launcher_hide_def [of "(launcher_hide s)\<lparr>timer_us := t\<rparr>"]
        standby_show_screen)
  show ?thesis
    using a b c scr
    by (simp add: standby_screen_hide_def loading_screen_hide_def launcher_hide_props
        launcher_hide_screens launcher_hide_events)
qed

text \<open>
  On a Launcher that is already hidden \<^verbatim>\<open>launcher_hide\<close> is not a no-op: in the
  initial state it creates the Standby screen and flags it visible.
\<close>

theorem hide_twice_counterexample:
  "\<not> launcher_visible (initial_state True [])
   \<and> \<not> standby_visible (initial_state True [])
   \<and> standby_visible (launcher_hide (initial_state True []))
   \<and> launcher_hide (initial_state True []) \<noteq> initial_state True []"
proof -
  have a: "\<not> standby_visible (initial_state True [])" "\<not> launcher_visible (initial_state True [])"
    by (simp_all add: initial_state_def)
  have b: "standby_visible (launcher_hide (initial_state True []))"
    by (simp add: launcher_hide_props)
  from a b have "launcher_hide (initial_state True []) \<noteq> initial_state True []" by auto
  with a b show ?thesis by simp
qed

theorem hide_twice_witness:
  "\<not> standby_visible (initial_state True [])
   \<and> standby_screen_hide (initial_state True []) = initial_state True []
   \<and> standby_visible (launcher_hide ((launcher_hide (initial_state True []))\<lparr>timer_us := 5000000\<rparr>))"
  using hide_twice [of "initial_state True []" 5000000]
  by (simp add: launcher_hide_props) (simp add: initial_state_def)

section \<open>Construction of the screens\<close>




section \<open>The network step of the boot\<close>

text \<open>
  Claim C8. When the stored \<^verbatim>\<open>wifi_ssid\<close> is empty, the boot sequence attempts the
  fallback network, once, and nothing else. If the attempt succeeds it saves the
  fallback SSID and password, which the configuration then returns; if it fails it
  starts the access point and leaves the configuration as it was. Whatever the outcome,
  with or without stored credentials, the boot runs to its end: the system is marked
  initialised, Loading is hidden and Standby is shown.
\<close>

theorem boot_network_fallback:
  "(config_get ''wifi_ssid'' [] s0 = [] \<longrightarrow>
      network_events (main_task_boot env s0) =
        network_events s0 @ [WifiConnect ''BE3600'' ''19930101''] @
          (if wifi_accepts env ''BE3600'' ''19930101''
           then [ConfigSave ''wifi_ssid'' ''BE3600'', ConfigSave ''wifi_password'' ''19930101'']
           else [SoftAP])
    \<and> (wifi_accepts env ''BE3600'' ''19930101'' \<longrightarrow>
         config_get ''wifi_ssid'' [] (main_task_boot env s0) = ''BE3600''
       \<and> config_get ''wifi_password'' [] (main_task_boot env s0) = ''19930101'')
    \<and> (\<not> wifi_accepts env ''BE3600'' ''19930101'' \<longrightarrow>
         config (main_task_boot env s0) = config s0))
   \<and> system_initialized (main_task_boot env s0)
   \<and> standby_visible (main_task_boot env s0)
   \<and> \<not> loading_visible (main_task_boot env s0)"
proof -
  have ev: "network_events (main_task_boot env s0) =
        network_events s0 @ [WifiConnect ''BE3600'' ''19930101''] @
          (if wifi_accepts env ''BE3600'' ''19930101''
           then [ConfigSave ''wifi_ssid'' ''BE3600'', ConfigSave ''wifi_password'' ''19930101'']
           else [SoftAP])"
    if "config_get ''wifi_ssid'' [] s0 = []"
    using that by (simp add: boot_network_events)
  have saved: "config_get ''wifi_ssid'' [] (main_task_boot env s0) = ''BE3600''
       \<and> config_get ''wifi_password'' [] (main_task_boot env s0) = ''19930101''"
    if "config_get ''wifi_ssid'' [] s0 = []" and "wifi_accepts env ''BE3600'' ''19930101''"
    using that by (simp add: config_get_def [of _ _ "main_task_boot env s0"] boot_config)
  have kept: "config (main_task_boot env s0) = config s0"
    if "\<not> wifi_accepts env ''BE3600'' ''19930101''"
    using that by (simp add: boot_config)
  show ?thesis
    using ev saved kept by (simp add: boot_props)
qed

theorem boot_network_fallback_witness:
  "config_get ''wifi_ssid'' [] (initial_state True []) = []
   \<and> network_events (main_task_boot boot_env0 (initial_state True []))
       = [WifiConnect ''BE3600'' ''19930101'', SoftAP]
   \<and> network_events (main_task_boot
         \<lparr>init_creations = 6, show_creations = 6, wifi_accepts = (\<lambda>ssid password. True)\<rparr>
         (initial_state True []))
       = [WifiConnect ''BE3600'' ''19930101'', ConfigSave ''wifi_ssid'' ''BE3600'',
          ConfigSave ''wifi_password'' ''19930101'']
   \<and> config_get ''wifi_ssid'' [] (main_task_boot
         \<lparr>init_creations = 6, show_creations = 6, wifi_accepts = (\<lambda>ssid password. True)\<rparr>
         (initial_state True [])) = ''BE3600''
   \<and> system_initialized (main_task_boot boot_env0 (initial_state True []))"
  using boot_network_fallback [of "initial_state True []" boot_env0]
    boot_network_fallback [of "initial_state True []"
      "\<lparr>init_creations = 6, show_creations = 6, wifi_accepts = (\<lambda>ssid password. True)\<rparr>"]
  by (simp add: boot_env0_def config_get_def [of _ _ "initial_state True []"]
      network_events_def [of "initial_state True []"])
    (simp add: initial_state_def)

section \<open>The bus singleton\<close>

text \<open>
  Claim C9, as amended. \<^verbatim>\<open>get_i2c_bus_handle\<close> returns the handle in the slot
  without a call to the driver when the slot is filled; when the slot is empty it asks
  the driver once, and returns what the driver gave, an absent handle if the
  construction failed. \<^verbatim>\<open>create_i2c_device\<close>, failed or not, leaves a filled slot
  as it was and asks for no new bus; on an empty slot it leaves what the bus
  construction gave, so a failed device creation can fill the slot. After a device
  creation on a filled slot, a creation for another address goes to the same bus
  handle.
\<close>

theorem bus_singleton:
  "(s_i2c_bus_handle s \<noteq> None \<longrightarrow>
      get_i2c_bus_handle env s = (s_i2c_bus_handle s, s))
   \<and> (s_i2c_bus_handle s = None \<longrightarrow>
        fst (get_i2c_bus_handle env s) = i2c_new_master_bus env
      \<and> s_i2c_bus_handle (snd (get_i2c_bus_handle env s)) = i2c_new_master_bus env
      \<and> bus_requests (snd (get_i2c_bus_handle env s)) = bus_requests s + 1)
   \<and> (s_i2c_bus_handle s = None \<and> i2c_new_master_bus env = None \<longrightarrow>
        fst (get_i2c_bus_handle env s) = None
      \<and> fst (create_i2c_device env addr s) = None)
   \<and> (s_i2c_bus_handle s \<noteq> None \<longrightarrow>
        s_i2c_bus_handle (snd (create_i2c_device env addr s)) = s_i2c_bus_handle s
      \<and> bus_requests (snd (create_i2c_device env addr s)) = bus_requests s)
   \<and> (s_i2c_bus_handle s = None \<longrightarrow>
        s_i2c_bus_handle (snd (create_i2c_device env addr s)) = i2c_new_master_bus env)
   \<and> (\<forall>b. s_i2c_bus_handle s = Some b \<longrightarrow>
        device_requests (snd (create_i2c_device env' addr' (snd (create_i2c_device env addr s))))
          = device_requests s @ [(b, addr), (b, addr')])"
  by (auto simp add: get_i2c_bus_handle_def create_i2c_device_def Let_def
      split: option.splits prod.splits)

text \<open>
  On an empty slot, with a bus that can be constructed and a device that cannot be
  added, \<^verbatim>\<open>create_i2c_device\<close> fails and the slot is filled: it has changed.
\<close>

theorem bus_singleton_counterexample:
  "fst (create_i2c_device
         \<lparr>i2c_new_master_bus = Some 1, i2c_master_bus_add_device = (\<lambda>bus addr. None)\<rparr> 0x51
         \<lparr>s_i2c_bus_handle = None, bus_requests = 0, device_requests = []\<rparr>) = None
   \<and> s_i2c_bus_handle (snd (create_i2c_device
         \<lparr>i2c_new_master_bus = Some 1, i2c_master_bus_add_device = (\<lambda>bus addr. None)\<rparr> 0x51
         \<lparr>s_i2c_bus_handle = None, bus_requests = 0, device_requests = []\<rparr>))
       \<noteq> s_i2c_bus_handle \<lparr>s_i2c_bus_handle = None, bus_requests = 0, device_requests = []\<rparr>"
  by (simp add: get_i2c_bus_handle_def create_i2c_device_def Let_def)

theorem bus_singleton_witness:
  "fst (create_i2c_device
         \<lparr>i2c_new_master_bus = None, i2c_master_bus_add_device = (\<lambda>bus addr. None)\<rparr> 0x51
         \<lparr>s_i2c_bus_handle = Some 7, bus_requests = 1, device_requests = []\<rparr>) = None
   \<and> device_requests (snd (create_i2c_device
         \<lparr>i2c_new_master_bus = None, i2c_master_bus_add_device = (\<lambda>bus addr. Some 3)\<rparr> 0x68
         (snd (create_i2c_device
           \<lparr>i2c_new_master_bus = None, i2c_master_bus_add_device = (\<lambda>bus addr. None)\<rparr> 0x51
           \<lparr>s_i2c_bus_handle = Some 7, bus_requests = 1, device_requests = []\<rparr>))))
       = [(7, 0x51), (7, 0x68)]
   \<and> fst (get_i2c_bus_handle
         \<lparr>i2c_new_master_bus = None, i2c_master_bus_add_device = (\<lambda>bus addr. None)\<rparr>
         \<lparr>s_i2c_bus_handle = None, bus_requests = 0, device_requests = []\<rparr>) = None"
  using bus_singleton
    [of "\<lparr>s_i2c_bus_handle = Some 7, bus_requests = 1, device_requests = []\<rparr>"
        "\<lparr>i2c_new_master_bus = None, i2c_master_bus_add_device = (\<lambda>bus addr. None)\<rparr>"
        "0x51"
        "\<lparr>i2c_new_master_bus = None, i2c_master_bus_add_device = (\<lambda>bus addr. Some 3)\<rparr>"
        "0x68"]
    bus_singleton
    [of "\<lparr>s_i2c_bus_handle = None, bus_requests = 0, device_requests = []\<rparr>"
        "\<lparr>i2c_new_master_bus = None, i2c_master_bus_add_device = (\<lambda>bus addr. None)\<rparr>"
        "0x51"]
  by (simp add: create_i2c_device_def get_i2c_bus_handle_def)

end
